theory Spec2Isabelle
  imports Main "HOL-Library.Sublist"
begin

section \<open>The role-mapping CSV converter of the Tableau migration tool\<close>

text \<open>
  The repository holds two Streamlit front-ends in one source file. Both contain the same
  piece of business logic: a converter that reads the rows of an uploaded Excel sheet, maps
  the \<open>Site Role\<close> cell of every row to three derived columns, and offers the result
  as a headerless CSV download. The first front-end has it as the function
  \<open>convert_excel_to_csv\<close>; the second has it inlined in the
  \<open>Convert User Format\<close> branch of \<open>main\<close>.
\<close>

subsection \<open>Cells, rows and exceptions\<close>

text \<open>
  A cell of the sheet, as \<open>pd.read_excel\<close> hands it to the code: a Python string, the
  missing value (a blank cell is read as the float NaN), or any other scalar (a number, a
  boolean, a timestamp), whose payload the converter never inspects.
\<close>

datatype 'a cell = Str string | NaN | Other 'a

text \<open>
  One row of \<open>df.iterrows()\<close> is a pandas Series: a finite map from column labels to
  cells. \<open>read_excel\<close> renames repeated headers, so a label has at most one cell.
\<close>

type_synonym 'a series = "string \<rightharpoonup> 'a cell"

text \<open>The exceptions that can reach the converter's \<open>except Exception\<close> handler.\<close>

datatype py_error = TypeError | ExcelReadError

text \<open>\<open>row.get(key, default)\<close>: the cell under the label, the default when the label is absent.\<close>

definition series_get :: "'a series \<Rightarrow> string \<Rightarrow> 'a cell \<Rightarrow> 'a cell" where
  "series_get row key dflt = (case row key of None \<Rightarrow> dflt | Some v \<Rightarrow> v)"

text \<open>
  Python's \<open>sub in x\<close> with a string on the left: case-sensitive substring containment
  when \<open>x\<close> is a string, and \<open>TypeError\<close> (argument is not iterable) for a float, an
  integer, a boolean or a timestamp.
\<close>

definition py_in :: "string \<Rightarrow> 'a cell \<Rightarrow> py_error + bool" where
  "py_in sub x = (case x of Str s \<Rightarrow> Inr (sublist sub s) | NaN \<Rightarrow> Inl TypeError | Other v \<Rightarrow> Inl TypeError)"

subsection \<open>The first front-end: \<open>convert_excel_to_csv\<close>\<close>

text \<open>
  The \<open>if\<close>/\<open>elif\<close> chain of the loop body. The three variables start as
  \<open>''\<close>, \<open>'None'\<close> and \<open>'False'\<close>; each branch overwrites some of them. The tests are
  evaluated in order, and a test that raises ends the chain with the exception.
\<close>

definition role_columns :: "'a cell \<Rightarrow> py_error + ('a cell \<times> 'a cell \<times> 'a cell)" where
  "role_columns site_role =
     (let simplified_role = (Str '''' :: 'a cell);
          fifth_column = Str ''None'';
          sixth_column = Str ''False''
      in (case py_in ''SiteAdministratorCreator'' site_role of
            Inl e \<Rightarrow> Inl e
          | Inr b1 \<Rightarrow>
              if b1 then Inr (Str ''Creator'', Str ''site'', Str ''True'')
              else (case py_in ''ExplorerCanPublish'' site_role of
                      Inl e \<Rightarrow> Inl e
                    | Inr b2 \<Rightarrow>
                        if b2 then Inr (Str ''Explorer'', fifth_column, Str ''True'')
                        else (case py_in ''Viewer'' site_role of
                                Inl e \<Rightarrow> Inl e
                              | Inr b3 \<Rightarrow>
                                  if b3 then Inr (Str ''Viewer'', fifth_column, sixth_column)
                                  else (case py_in ''SiteAdministratorExplorer'' site_role of
                                          Inl e \<Rightarrow> Inl e
                                        | Inr b4 \<Rightarrow>
                                            if b4 then Inr (Str ''Explorer'', Str ''site'', Str ''True'')
                                            else Inr (site_role, fifth_column, sixth_column))))))"

text \<open>The body of the \<open>for\<close> loop: the record appended for one row, or the exception raised.\<close>

definition convert_row :: "'a series \<Rightarrow> py_error + 'a cell list" where
  "convert_row row =
     (let email = series_get row ''Email'' (Str '''');
          site_role = series_get row ''Site Role'' (Str '''')
      in case role_columns site_role of
           Inl e \<Rightarrow> Inl e
         | Inr (simplified_role, fifth_column, sixth_column) \<Rightarrow>
             Inr [email, Str '''', Str '''', simplified_role, fifth_column, sixth_column])"

text \<open>
  The loop over \<open>df.iterrows()\<close>, with \<open>transformed_data\<close> as the accumulator that
  every iteration appends to. An exception leaves the loop at once.
\<close>

fun convert_rows :: "'a series list \<Rightarrow> 'a cell list list \<Rightarrow> py_error + 'a cell list list" where
  "convert_rows [] transformed_data = Inr transformed_data"
| "convert_rows (row # rest) transformed_data =
     (case convert_row row of
        Inl e \<Rightarrow> Inl e
      | Inr record \<Rightarrow> convert_rows rest (transformed_data @ [record]))"

subsection \<open>Serialisation: \<open>pd.DataFrame(transformed_data).to_csv(index=False, header=False)\<close>\<close>

text \<open>
  Modelled from the spec: \<open>DataFrame.to_csv\<close> belongs to the pandas library, which is not
  part of the repository. The specification describes what the call produces:
  comma-delimited text, no header row, no index column, one line per record, the fields in
  record order, standard CSV quoting for a field that contains the delimiter, and an empty
  body for zero records. Standard quoting (RFC 4180, and the minimal quoting of Python's
  \<open>csv\<close> writer that pandas uses) encloses a field in double quotes when it holds a comma, a
  double quote, a carriage return or a line feed, and doubles every double quote inside.
  A string cell is written as it is and a missing value as the empty text. The text of any
  other scalar depends on the dtype pandas infers for its column; it is the parameter
  \<open>fmt\<close>, which receives the frame and the column number. The line terminator is the
  parameter \<open>lineterminator\<close> (pandas takes \<open>os.linesep\<close>).
\<close>

definition cell_text :: "('a \<Rightarrow> string) \<Rightarrow> 'a cell \<Rightarrow> string" where
  "cell_text f c = (case c of Str s \<Rightarrow> s | NaN \<Rightarrow> [] | Other v \<Rightarrow> f v)"

definition needs_quoting :: "string \<Rightarrow> bool" where
  "needs_quoting s =
     list_ex (\<lambda>c. c = CHR '','' \<or> c = CHR 0x22 \<or> c = CHR 0x0D \<or> c = CHR 0x0A) s"

definition quote_field :: "string \<Rightarrow> string" where
  "quote_field s =
     (if needs_quoting s
      then [CHR 0x22] @ concat (map (\<lambda>c. if c = CHR 0x22 then [c, c] else [c]) s) @ [CHR 0x22]
      else s)"

fun join_fields :: "string list \<Rightarrow> string" where
  "join_fields [] = []"
| "join_fields [f] = f"
| "join_fields (f # g # fs) = f @ '','' @ join_fields (g # fs)"

definition csv_line ::
  "('a cell list list \<Rightarrow> nat \<Rightarrow> 'a \<Rightarrow> string) \<Rightarrow> 'a cell list list \<Rightarrow> 'a cell list \<Rightarrow> string" where
  "csv_line fmt frame record =
     join_fields (map (\<lambda>(j, c). quote_field (cell_text (fmt frame j) c)) (enumerate 0 record))"

definition to_csv ::
  "('a cell list list \<Rightarrow> nat \<Rightarrow> 'a \<Rightarrow> string) \<Rightarrow> string \<Rightarrow> 'a cell list list \<Rightarrow> string" where
  "to_csv fmt lineterminator frame =
     concat (map (\<lambda>record. csv_line fmt frame record @ lineterminator) frame)"

subsection \<open>The two entry points\<close>

text \<open>
  The uploaded file as the converter sees it: nothing uploaded (a falsy
  \<open>uploaded_file\<close>), a file on which \<open>pd.read_excel\<close> raises, or a sheet with its rows.
\<close>

datatype 'a upload = No_file | Unreadable | Sheet "'a series list"

text \<open>
  What the user gets: the warning that asks for a file, the download button carrying
  \<open>csv_data\<close> (followed by the success message), the message
  \<open>Conversion failed\<close> of the \<open>except\<close> handler, an exception that no handler of the
  application catches, or no widget at all.
\<close>

datatype outcome =
    Warning_no_file
  | Download string
  | Conversion_failed py_error
  | Uncaught py_error
  | Nothing_shown

text \<open>
  \<open>convert_excel_to_csv(uploaded_file)\<close>: the guard, then the \<open>try\<close> block with the
  read, the loop and the serialisation, and the handler that turns every exception into the
  failure message. The preview written with \<open>st.write\<close> does not influence the result.
\<close>

definition convert_excel_to_csv ::
  "('a cell list list \<Rightarrow> nat \<Rightarrow> 'a \<Rightarrow> string) \<Rightarrow> string \<Rightarrow> 'a upload \<Rightarrow> outcome" where
  "convert_excel_to_csv fmt lineterminator uploaded_file =
     (case uploaded_file of
        No_file \<Rightarrow> Warning_no_file
      | Unreadable \<Rightarrow> Conversion_failed ExcelReadError
      | Sheet df \<Rightarrow>
          (case convert_rows df [] of
             Inl e \<Rightarrow> Conversion_failed e
           | Inr transformed_data \<Rightarrow> Download (to_csv fmt lineterminator transformed_data)))"

subsection \<open>The second front-end: the \<open>Convert User Format\<close> branch of \<open>main\<close>\<close>

text \<open>The same chain, loop body and loop, as they are written a second time inside \<open>main\<close>.\<close>

definition main_role_columns :: "'a cell \<Rightarrow> py_error + ('a cell \<times> 'a cell \<times> 'a cell)" where
  "main_role_columns site_role =
     (let simplified_role = (Str '''' :: 'a cell);
          fifth_column = Str ''None'';
          sixth_column = Str ''False''
      in (case py_in ''SiteAdministratorCreator'' site_role of
            Inl e \<Rightarrow> Inl e
          | Inr b1 \<Rightarrow>
              if b1 then Inr (Str ''Creator'', Str ''site'', Str ''True'')
              else (case py_in ''ExplorerCanPublish'' site_role of
                      Inl e \<Rightarrow> Inl e
                    | Inr b2 \<Rightarrow>
                        if b2 then Inr (Str ''Explorer'', fifth_column, Str ''True'')
                        else (case py_in ''Viewer'' site_role of
                                Inl e \<Rightarrow> Inl e
                              | Inr b3 \<Rightarrow>
                                  if b3 then Inr (Str ''Viewer'', fifth_column, sixth_column)
                                  else (case py_in ''SiteAdministratorExplorer'' site_role of
                                          Inl e \<Rightarrow> Inl e
                                        | Inr b4 \<Rightarrow>
                                            if b4 then Inr (Str ''Explorer'', Str ''site'', Str ''True'')
                                            else Inr (site_role, fifth_column, sixth_column))))))"

definition main_convert_row :: "'a series \<Rightarrow> py_error + 'a cell list" where
  "main_convert_row row =
     (let email = series_get row ''Email'' (Str '''');
          site_role = series_get row ''Site Role'' (Str '''')
      in case main_role_columns site_role of
           Inl e \<Rightarrow> Inl e
         | Inr (simplified_role, fifth_column, sixth_column) \<Rightarrow>
             Inr [email, Str '''', Str '''', simplified_role, fifth_column, sixth_column])"

fun main_convert_rows :: "'a series list \<Rightarrow> 'a cell list list \<Rightarrow> py_error + 'a cell list list" where
  "main_convert_rows [] transformed_data = Inr transformed_data"
| "main_convert_rows (row # rest) transformed_data =
     (case main_convert_row row of
        Inl e \<Rightarrow> Inl e
      | Inr record \<Rightarrow> main_convert_rows rest (transformed_data @ [record]))"

text \<open>
  The branch once the \<open>Convert to CSV\<close> button is pressed. Without a file no widget of
  the converter is drawn. The sheet is read before the \<open>try\<close> block, so an unreadable file
  raises past the handler; the loop and the serialisation are inside it.
\<close>

definition main_convert_user_format ::
  "('a cell list list \<Rightarrow> nat \<Rightarrow> 'a \<Rightarrow> string) \<Rightarrow> string \<Rightarrow> 'a upload \<Rightarrow> outcome" where
  "main_convert_user_format fmt lineterminator uploaded_file =
     (case uploaded_file of
        No_file \<Rightarrow> Nothing_shown
      | Unreadable \<Rightarrow> Uncaught ExcelReadError
      | Sheet df \<Rightarrow>
          (case main_convert_rows df [] of
             Inl e \<Rightarrow> Conversion_failed e
           | Inr transformed_data \<Rightarrow> Download (to_csv fmt lineterminator transformed_data)))"

subsection \<open>Helper facts on the first converter\<close>

lemma role_columns_Str:
  "role_columns (Str s) =
     Inr (if sublist ''SiteAdministratorCreator'' s then (Str ''Creator'', Str ''site'', Str ''True'')
          else if sublist ''ExplorerCanPublish'' s then (Str ''Explorer'', Str ''None'', Str ''True'')
          else if sublist ''Viewer'' s then (Str ''Viewer'', Str ''None'', Str ''False'')
          else if sublist ''SiteAdministratorExplorer'' s then (Str ''Explorer'', Str ''site'', Str ''True'')
          else (Str s, Str ''None'', Str ''False''))"
  by (simp add: role_columns_def py_in_def)

lemma role_columns_NaN: "role_columns NaN = Inl TypeError"
  by (simp add: role_columns_def py_in_def)

lemma role_columns_Other: "role_columns (Other v) = Inl TypeError"
  by (simp add: role_columns_def py_in_def)

lemma role_columns_error: "role_columns c = Inl e \<Longrightarrow> e = TypeError"
  by (cases c) (simp_all add: role_columns_Str role_columns_NaN role_columns_Other)

lemma convert_row_Str:
  assumes "series_get row ''Site Role'' (Str '''') = Str s"
  shows "convert_row row =
     Inr ([series_get row ''Email'' (Str ''''), Str '''', Str ''''] @
       (if sublist ''SiteAdministratorCreator'' s then [Str ''Creator'', Str ''site'', Str ''True'']
        else if sublist ''ExplorerCanPublish'' s then [Str ''Explorer'', Str ''None'', Str ''True'']
        else if sublist ''Viewer'' s then [Str ''Viewer'', Str ''None'', Str ''False'']
        else if sublist ''SiteAdministratorExplorer'' s then [Str ''Explorer'', Str ''site'', Str ''True'']
        else [Str s, Str ''None'', Str ''False'']))"
  using assms by (simp add: convert_row_def role_columns_Str)

lemma convert_row_not_Str:
  assumes "\<forall>s. series_get row ''Site Role'' (Str '''') \<noteq> Str s"
  shows "convert_row row = Inl TypeError"
proof (cases "series_get row ''Site Role'' (Str '''')")
  case (Str s)
  with assms show ?thesis by simp
next
  case NaN
  then show ?thesis by (simp add: convert_row_def role_columns_NaN)
next
  case (Other v)
  then show ?thesis by (simp add: convert_row_def role_columns_Other)
qed

lemma convert_row_Inr_Str:
  assumes "convert_row row = Inr record"
  shows "\<exists>s. series_get row ''Site Role'' (Str '''') = Str s"
proof (rule ccontr)
  assume "\<not> ?thesis"
  then have "convert_row row = Inl TypeError" by (simp add: convert_row_not_Str)
  with assms show False by simp
qed

lemma convert_row_error: "convert_row row = Inl e \<Longrightarrow> e = TypeError"
  by (auto simp: convert_row_def Let_def split: sum.splits dest: role_columns_error)

lemma convert_rows_Inr_iff:
  "convert_rows rows acc = Inr out \<longleftrightarrow>
     (\<exists>records. map convert_row rows = map Inr records \<and> out = acc @ records)"
proof (induction rows arbitrary: acc)
  case Nil
  then show ?case by auto
next
  case (Cons row rest)
  show ?case
  proof (cases "convert_row row")
    case (Inl e)
    then show ?thesis by (auto simp: map_eq_Cons_conv)
  next
    case (Inr rcd)
    then show ?thesis by (auto simp: Cons.IH map_eq_Cons_conv Cons_eq_map_conv)
  qed
qed

lemma convert_rows_error: "convert_rows rows acc = Inl e \<Longrightarrow> e = TypeError"
  by (induction rows arbitrary: acc) (auto split: sum.splits dest: convert_row_error)

lemma convert_rows_length:
  assumes "convert_rows rows [] = Inr out"
  shows "length out = length rows"
proof -
  from assms obtain records where "map convert_row rows = map Inr records" "out = records"
    by (auto simp: convert_rows_Inr_iff)
  then show ?thesis by (metis length_map)
qed

lemma convert_rows_nth:
  assumes "convert_rows rows [] = Inr out" and "i < length rows"
  shows "convert_row (rows ! i) = Inr (out ! i)"
proof -
  from assms(1) have eq: "map convert_row rows = map Inr out"
    by (auto simp: convert_rows_Inr_iff)
  then have "length out = length rows" by (metis length_map)
  with assms(2) eq show ?thesis by (metis nth_map)
qed

lemma convert_rows_fails:
  assumes "row \<in> set rows" and "\<forall>s. series_get row ''Site Role'' (Str '''') \<noteq> Str s"
  shows "convert_rows rows [] = Inl TypeError"
proof (cases "convert_rows rows []")
  case (Inl e)
  then show ?thesis using convert_rows_error by blast
next
  case (Inr out)
  then have "map convert_row rows = map Inr out" by (auto simp: convert_rows_Inr_iff)
  moreover from assms(1) obtain i where "i < length rows" "rows ! i = row"
    by (auto simp: in_set_conv_nth)
  ultimately have "convert_row row = Inr (out ! i)" by (metis length_map nth_map)
  with assms(2) show ?thesis by (simp add: convert_row_not_Str)
qed

lemma convert_rows_succeeds:
  assumes "\<forall>row\<in>set rows. \<exists>s. series_get row ''Site Role'' (Str '''') = Str s"
  shows "\<exists>out. convert_rows rows [] = Inr out"
proof -
  have "\<forall>row\<in>set rows. \<exists>record. convert_row row = Inr record"
    using assms convert_row_Str by blast
  then have "\<exists>records. map convert_row rows = map Inr records"
  proof (induction rows)
    case Nil
    then show ?case by simp
  next
    case (Cons row rest)
    then obtain rcd records where "convert_row row = Inr rcd" "map convert_row rest = map Inr records"
      by auto
    then have "map convert_row (row # rest) = map Inr (rcd # records)" by simp
    then show ?case by blast
  qed
  then show ?thesis by (simp add: convert_rows_Inr_iff)
qed

subsection \<open>Helper facts on the second converter and on records\<close>

lemma main_role_columns_eq: "main_role_columns c = role_columns c"
  by (simp add: main_role_columns_def role_columns_def)

lemma main_convert_row_eq: "main_convert_row row = convert_row row"
  by (simp add: main_convert_row_def convert_row_def main_role_columns_eq)

lemma main_convert_rows_eq: "main_convert_rows rows acc = convert_rows rows acc"
  by (induction rows arbitrary: acc) (auto simp: main_convert_row_eq split: sum.splits)

lemma convert_row_shape:
  assumes "convert_row row = Inr rcd"
  shows "length rcd = 6 \<and> rcd ! 0 = series_get row ''Email'' (Str '''')
     \<and> rcd ! 1 = Str '''' \<and> rcd ! 2 = Str ''''
     \<and> (rcd ! 4 = Str ''site'' \<longrightarrow> rcd ! 5 = Str ''True'')"
proof -
  from assms obtain s where "series_get row ''Site Role'' (Str '''') = Str s"
    using convert_row_Inr_Str by blast
  from convert_row_Str [OF this] assms show ?thesis
    by (auto split: if_splits)
qed

subsection \<open>Helper facts on first matches and on the columns read\<close>

lemma first_match_unique:
  assumes "\<exists>k<length cs. cs ! k"
  shows "\<exists>!k. k < length cs \<and> cs ! k \<and> (\<forall>j<k. \<not> cs ! j)"
proof (rule ex_ex1I)
  define k0 where "k0 = (LEAST k. k < length cs \<and> cs ! k)"
  from assms obtain k1 where "k1 < length cs \<and> cs ! k1" by blast
  then have k0: "k0 < length cs \<and> cs ! k0"
    unfolding k0_def by (rule LeastI)
  have "\<forall>j<k0. \<not> cs ! j"
  proof (intro allI impI notI)
    fix j assume "j < k0" "cs ! j"
    with k0 have "j < length cs \<and> cs ! j" by simp
    then have "k0 \<le> j" unfolding k0_def by (rule Least_le)
    with \<open>j < k0\<close> show False by simp
  qed
  with k0 show "\<exists>k. k < length cs \<and> cs ! k \<and> (\<forall>j<k. \<not> cs ! j)" by blast
next
  fix k k'
  assume "k < length cs \<and> cs ! k \<and> (\<forall>j<k. \<not> cs ! j)"
    and "k' < length cs \<and> cs ! k' \<and> (\<forall>j<k'. \<not> cs ! j)"
  then show "k = k'" by (meson linorder_neqE_nat)
qed

lemma convert_row_cong:
  assumes "row ''Email'' = row' ''Email''" and "row ''Site Role'' = row' ''Site Role''"
  shows "convert_row row = convert_row row'"
  using assms by (simp add: convert_row_def series_get_def)

lemma convert_rows_cong:
  assumes "map convert_row rows = map convert_row rows'"
  shows "convert_rows rows acc = convert_rows rows' acc"
  using assms
proof (induction rows arbitrary: rows' acc)
  case Nil
  then show ?case by simp
next
  case (Cons row rest)
  then obtain row' rest' where "rows' = row' # rest'" "convert_row row = convert_row row'"
    "map convert_row rest = map convert_row rest'"
    by (auto simp: Cons_eq_map_conv)
  with Cons.IH show ?case by (simp split: sum.splits)
qed

lemma convert_rows_columns:
  assumes eq: "map (\<lambda>row. (row ''Email'', row ''Site Role'')) df
        = map (\<lambda>row. (row ''Email'', row ''Site Role'')) df'"
  shows "convert_rows df [] = convert_rows df' []"
proof -
  from eq have "length (map (\<lambda>row. (row ''Email'', row ''Site Role'')) df)
      = length (map (\<lambda>row. (row ''Email'', row ''Site Role'')) df')"
    by (rule arg_cong)
  then have len: "length df = length df'" by (simp only: length_map)
  have "map convert_row df = map convert_row df'"
  proof (rule nth_equalityI)
    show "length (map convert_row df) = length (map convert_row df')" using len by simp
  next
    fix i assume "i < length (map convert_row df)"
    then have i: "i < length df" "i < length df'" using len by simp_all
    from eq have "map (\<lambda>row. (row ''Email'', row ''Site Role'')) df ! i
      = map (\<lambda>row. (row ''Email'', row ''Site Role'')) df' ! i" by simp
    with i have "(df ! i) ''Email'' = (df' ! i) ''Email''"
      "(df ! i) ''Site Role'' = (df' ! i) ''Site Role''" by simp_all
    then have "convert_row (df ! i) = convert_row (df' ! i)" by (rule convert_row_cong)
    with i show "map convert_row df ! i = map convert_row df' ! i" by simp
  qed
  then show ?thesis by (rule convert_rows_cong)
qed

subsection \<open>Helper facts on the serialisation\<close>

lemma convert_row_fields:
  assumes "convert_row row = Inr rcd"
  shows "\<exists>email r a p. rcd = [email, Str '''', Str '''', Str r, Str a, Str p]
     \<and> (a = ''site'' \<or> a = ''None'') \<and> (p = ''True'' \<or> p = ''False'')"
proof -
  from assms obtain s where "series_get row ''Site Role'' (Str '''') = Str s"
    using convert_row_Inr_Str by blast
  from convert_row_Str [OF this] assms show ?thesis
    by (auto split: if_splits)
qed

lemma csv_line_fields:
  assumes "a = ''site'' \<or> a = ''None''" and "p = ''True'' \<or> p = ''False''"
  shows "csv_line fmt frame [email, Str '''', Str '''', Str r, Str a, Str p] =
     quote_field (cell_text (fmt frame 0) email) @ '',,,'' @ quote_field r @ '','' @ a @ '','' @ p"
  using assms
  by (auto simp: csv_line_def cell_text_def quote_field_def needs_quoting_def)

lemma convert_rows_member:
  assumes "convert_rows df [] = Inr out" and "rcd \<in> set out"
  shows "\<exists>row\<in>set df. convert_row row = Inr rcd"
proof -
  from assms(1) have len: "length out = length df" by (rule convert_rows_length)
  from assms(2) obtain i where i: "i < length out" "out ! i = rcd"
    by (auto simp: in_set_conv_nth)
  with len have "i < length df" by simp
  with assms(1) have "convert_row (df ! i) = Inr (out ! i)" by (rule convert_rows_nth)
  with i \<open>i < length df\<close> show ?thesis by auto
qed

section \<open>The claims\<close>

subsection \<open>C1: the role mapping\<close>

text \<open>
  Claim C1. For a row whose site role is a string, the loop body assigns the simplified
  role, the admin scope and the publish flag by case-sensitive substring containment, the
  first matching keyword winning, in the order \<open>SiteAdministratorCreator\<close>,
  \<open>ExplorerCanPublish\<close>, \<open>Viewer\<close>, \<open>SiteAdministratorExplorer\<close>; when no keyword
  occurs the site role itself is passed through with scope \<open>None\<close> and flag
  \<open>False\<close>. The site role is the \<open>Site Role\<close> cell, or the empty string when the
  column is absent.
\<close>

theorem role_mapping_first_match:
  assumes "series_get row ''Site Role'' (Str '''') = Str site_role"
  shows "convert_row row =
     (case (if sublist ''SiteAdministratorCreator'' site_role then (''Creator'', ''site'', ''True'')
            else if sublist ''ExplorerCanPublish'' site_role then (''Explorer'', ''None'', ''True'')
            else if sublist ''Viewer'' site_role then (''Viewer'', ''None'', ''False'')
            else if sublist ''SiteAdministratorExplorer'' site_role then (''Explorer'', ''site'', ''True'')
            else (site_role, ''None'', ''False''))
      of (simplified_role, admin_scope, can_publish) \<Rightarrow>
        Inr [series_get row ''Email'' (Str ''''), Str '''', Str '''',
             Str simplified_role, Str admin_scope, Str can_publish])"
  using assms by (simp add: convert_row_Str)

theorem role_mapping_first_match_witness:
  "convert_row [''Email'' \<mapsto> Str ''v@x.com'', ''Site Role'' \<mapsto> Str ''SiteAdministratorExplorer (Viewer)'']
     = Inr [Str ''v@x.com'', Str '''', Str '''', Str ''Viewer'', Str ''None'', (Str ''False'' :: int cell)]"
  using role_mapping_first_match
    [of "[''Email'' \<mapsto> Str ''v@x.com'', ''Site Role'' \<mapsto> Str ''SiteAdministratorExplorer (Viewer)'']"
        "''SiteAdministratorExplorer (Viewer)''"]
  by (simp add: series_get_def sublist_Cons_right)

subsection \<open>C6: an absent or empty site role\<close>

text \<open>
  Claim C6. A row whose site role is absent or empty takes the pass-through branch: its
  record is the email, two empty fields, the empty simplified role, \<open>None\<close> and
  \<open>False\<close>. The code does not do this for the row the claim is about. A blank
  \<open>Site Role\<close> cell reaches the loop as NaN under a label that is present, so
  \<open>row.get\<close> returns the NaN and not its default; the first substring test raises, the
  row gets no record, and the sheet that contains it gets none either.
\<close>

theorem blank_site_role_aborts:
  "convert_row [''Email'' \<mapsto> Str ''b@x.com'', ''Site Role'' \<mapsto> NaN]
     = (Inl TypeError :: py_error + int cell list)
   \<and> convert_rows
       [[''Email'' \<mapsto> Str ''a@x.com'', ''Site Role'' \<mapsto> Str ''Viewer''],
        [''Email'' \<mapsto> Str ''b@x.com'', ''Site Role'' \<mapsto> NaN]] []
     = (Inl TypeError :: py_error + int cell list list)"
  by (simp add: convert_row_def series_get_def role_columns_Str role_columns_NaN sublist_Cons_right)

text \<open>
  The default of \<open>row.get\<close> shows what the loop body is meant to do with a missing site
  role, and it does so in the two cases the default reaches: a row without the
  \<open>Site Role\<close> label, and a cell that holds the empty string.
\<close>

lemma site_role_default_passes_through:
  assumes "row ''Site Role'' = None \<or> row ''Site Role'' = Some (Str '''')"
  shows "convert_row row =
     Inr [series_get row ''Email'' (Str ''''), Str '''', Str '''', Str '''', Str ''None'', Str ''False'']"
proof -
  from assms have "series_get row ''Site Role'' (Str '''') = Str ''''"
    by (auto simp: series_get_def)
  then show ?thesis by (simp add: convert_row_Str)
qed

subsection \<open>C5: the concrete scenarios\<close>

text \<open>
  Claim C5. Each of the five one-row scenarios of the specification produces exactly the
  stated CSV line, followed by the line terminator, whatever the formatting of non-string
  scalars and whatever the terminator.
\<close>

theorem concrete_scenarios:
  "convert_excel_to_csv fmt nl
     (Sheet [[''Email'' \<mapsto> Str ''a@x.com'', ''Site Role'' \<mapsto> Str ''SiteAdministratorCreator'']])
     = Download (''a@x.com,,,Creator,site,True'' @ nl)
   \<and> convert_excel_to_csv fmt nl
     (Sheet [[''Email'' \<mapsto> Str ''b@x.com'', ''Site Role'' \<mapsto> Str ''ExplorerCanPublish'']])
     = Download (''b@x.com,,,Explorer,None,True'' @ nl)
   \<and> convert_excel_to_csv fmt nl
     (Sheet [[''Email'' \<mapsto> Str ''c@x.com'', ''Site Role'' \<mapsto> Str ''Viewer'']])
     = Download (''c@x.com,,,Viewer,None,False'' @ nl)
   \<and> convert_excel_to_csv fmt nl
     (Sheet [[''Email'' \<mapsto> Str ''d@x.com'', ''Site Role'' \<mapsto> Str ''SiteAdministratorExplorer'']])
     = Download (''d@x.com,,,Explorer,site,True'' @ nl)
   \<and> convert_excel_to_csv fmt nl
     (Sheet [[''Email'' \<mapsto> Str ''e@x.com'', ''Site Role'' \<mapsto> Str ''Unlicensed'']])
     = Download (''e@x.com,,,Unlicensed,None,False'' @ nl)"
proof -
  note ev = convert_excel_to_csv_def convert_row_def series_get_def role_columns_Str
    sublist_Cons_right to_csv_def csv_line_def quote_field_def needs_quoting_def cell_text_def
  have a: "convert_excel_to_csv fmt nl
     (Sheet [[''Email'' \<mapsto> Str ''a@x.com'', ''Site Role'' \<mapsto> Str ''SiteAdministratorCreator'']])
     = Download (''a@x.com,,,Creator,site,True'' @ nl)"
    by (simp add: ev)
  have b: "convert_excel_to_csv fmt nl
     (Sheet [[''Email'' \<mapsto> Str ''b@x.com'', ''Site Role'' \<mapsto> Str ''ExplorerCanPublish'']])
     = Download (''b@x.com,,,Explorer,None,True'' @ nl)"
    by (simp add: ev)
  have c: "convert_excel_to_csv fmt nl
     (Sheet [[''Email'' \<mapsto> Str ''c@x.com'', ''Site Role'' \<mapsto> Str ''Viewer'']])
     = Download (''c@x.com,,,Viewer,None,False'' @ nl)"
    by (simp add: ev)
  have d: "convert_excel_to_csv fmt nl
     (Sheet [[''Email'' \<mapsto> Str ''d@x.com'', ''Site Role'' \<mapsto> Str ''SiteAdministratorExplorer'']])
     = Download (''d@x.com,,,Explorer,site,True'' @ nl)"
    by (simp add: ev)
  have e: "convert_excel_to_csv fmt nl
     (Sheet [[''Email'' \<mapsto> Str ''e@x.com'', ''Site Role'' \<mapsto> Str ''Unlicensed'']])
     = Download (''e@x.com,,,Unlicensed,None,False'' @ nl)"
    by (simp add: ev)
  from a b c d e show ?thesis by blast
qed

subsection \<open>C2: one record per row\<close>

text \<open>
  Claim C2 says that every sheet of \<open>N\<close> rows gives exactly \<open>N\<close> records. The sheet
  below has three rows, the last with the number 7 in its \<open>Site Role\<close> cell: the
  substring test raises on that row, the loop is left, and the conversion gives no list of
  records at all, so neither three records nor the two of the well-formed rows.
\<close>

theorem row_count_counterexample:
  "convert_rows
     [[''Email'' \<mapsto> Str ''a@x.com'', ''Site Role'' \<mapsto> Str ''Viewer''],
      [''Email'' \<mapsto> Str ''b@x.com'', ''Site Role'' \<mapsto> Str ''Unlicensed''],
      [''Email'' \<mapsto> Str ''c@x.com'', ''Site Role'' \<mapsto> Other 7]] []
     = (Inl TypeError :: py_error + int cell list list)
   \<and> convert_rows
     [[''Email'' \<mapsto> Str ''a@x.com'', ''Site Role'' \<mapsto> Str ''Viewer''],
      [''Email'' \<mapsto> Str ''b@x.com'', ''Site Role'' \<mapsto> Str ''Unlicensed''],
      [''Email'' \<mapsto> Str ''c@x.com'', ''Site Role'' \<mapsto> Other 7]] []
     \<noteq> Inr [[Str ''a@x.com'', Str '''', Str '''', Str ''Viewer'', Str ''None'', Str ''False''],
             [Str ''b@x.com'', Str '''', Str '''', Str ''Unlicensed'', Str ''None'', Str ''False''],
             [Str ''c@x.com'', Str '''', Str '''', Str '''', Str ''None'', (Str ''False'' :: int cell)]]"
  by (simp add: convert_row_def series_get_def role_columns_Str role_columns_Other sublist_Cons_right)

text \<open>
  Claim C2, as amended. For a sheet of \<open>N\<close> rows (\<open>N\<close> may be zero) in which every
  site role is a string, the loop ends normally with exactly \<open>N\<close> records, the record at
  each position being the one the loop body builds for the row at that position: no row is
  filtered, merged, added or dropped, and the download carries the serialisation of these
  records. For a sheet in which some \<open>Site Role\<close> cell holds a scalar that is not a string
  (a number, a boolean, a timestamp), the conversion fails as a whole and there is no record
  for any row.
\<close>

theorem output_row_count:
  "((\<forall>row\<in>set df. \<exists>s. series_get row ''Site Role'' (Str '''') = Str s) \<longrightarrow>
      (\<exists>transformed_data.
           convert_rows df [] = Inr transformed_data
         \<and> length transformed_data = length df
         \<and> map Inr transformed_data = map convert_row df
         \<and> convert_excel_to_csv fmt nl (Sheet df) = Download (to_csv fmt nl transformed_data)))
   \<and> ((\<exists>row\<in>set df. \<exists>v. row ''Site Role'' = Some (Other v)) \<longrightarrow>
        convert_rows df [] = Inl TypeError
      \<and> convert_excel_to_csv fmt nl (Sheet df) = Conversion_failed TypeError)"
proof (intro conjI impI)
  assume "\<forall>row\<in>set df. \<exists>s. series_get row ''Site Role'' (Str '''') = Str s"
  then obtain out where out: "convert_rows df [] = Inr out"
    using convert_rows_succeeds by blast
  then have "length out = length df" by (rule convert_rows_length)
  moreover from out have "map Inr out = map convert_row df"
    by (auto simp: convert_rows_Inr_iff)
  moreover from out have "convert_excel_to_csv fmt nl (Sheet df) = Download (to_csv fmt nl out)"
    by (simp add: convert_excel_to_csv_def)
  ultimately show "\<exists>transformed_data.
           convert_rows df [] = Inr transformed_data
         \<and> length transformed_data = length df
         \<and> map Inr transformed_data = map convert_row df
         \<and> convert_excel_to_csv fmt nl (Sheet df) = Download (to_csv fmt nl transformed_data)"
    using out by blast
next
  assume "\<exists>row\<in>set df. \<exists>v. row ''Site Role'' = Some (Other v)"
  then obtain row v where row: "row \<in> set df" "row ''Site Role'' = Some (Other v)"
    by blast
  then have "\<forall>s. series_get row ''Site Role'' (Str '''') \<noteq> Str s"
    by (simp add: series_get_def)
  with row(1) have run: "convert_rows df [] = Inl TypeError"
    by (rule convert_rows_fails)
  then show "convert_rows df [] = Inl TypeError" .
  from run show "convert_excel_to_csv fmt nl (Sheet df) = Conversion_failed TypeError"
    by (simp add: convert_excel_to_csv_def)
qed

theorem output_row_count_witness:
  "(\<exists>transformed_data.
     convert_rows
       [[''Email'' \<mapsto> Str ''a@x.com'', ''Site Role'' \<mapsto> Str ''Viewer''],
        [''Email'' \<mapsto> Str ''a@x.com'', ''Site Role'' \<mapsto> Str ''Viewer''],
        [''Email'' \<mapsto> Other 7, ''Site Role'' \<mapsto> Str ''Unlicensed'']] [] = Inr transformed_data
     \<and> length (transformed_data :: int cell list list) = 3)
   \<and> convert_rows
       [[''Email'' \<mapsto> Str ''a@x.com'', ''Site Role'' \<mapsto> Str ''Viewer''],
        [''Email'' \<mapsto> Str ''c@x.com'', ''Site Role'' \<mapsto> Other 7]] []
     = (Inl TypeError :: py_error + int cell list list)"
proof -
  have strings: "\<forall>row\<in>set
       [[''Email'' \<mapsto> Str ''a@x.com'', ''Site Role'' \<mapsto> Str ''Viewer''],
        [''Email'' \<mapsto> Str ''a@x.com'', ''Site Role'' \<mapsto> Str ''Viewer''],
        [''Email'' \<mapsto> Other (7::int), ''Site Role'' \<mapsto> Str ''Unlicensed'']].
     \<exists>s. series_get row ''Site Role'' (Str '''') = Str s"
    by (simp add: series_get_def)
  have number: "\<exists>row\<in>set
       [[''Email'' \<mapsto> Str ''a@x.com'', ''Site Role'' \<mapsto> Str ''Viewer''],
        [''Email'' \<mapsto> Str ''c@x.com'', ''Site Role'' \<mapsto> Other (7::int)]].
     \<exists>v. row ''Site Role'' = Some (Other v)"
    by simp
  from output_row_count [where fmt = "\<lambda>frame j v. []" and nl = "[]", THEN conjunct1, THEN mp, OF strings]
  have counted: "\<exists>transformed_data.
     convert_rows
       [[''Email'' \<mapsto> Str ''a@x.com'', ''Site Role'' \<mapsto> Str ''Viewer''],
        [''Email'' \<mapsto> Str ''a@x.com'', ''Site Role'' \<mapsto> Str ''Viewer''],
        [''Email'' \<mapsto> Other 7, ''Site Role'' \<mapsto> Str ''Unlicensed'']] [] = Inr transformed_data
     \<and> length (transformed_data :: int cell list list) = 3"
    by auto
  from output_row_count [where fmt = "\<lambda>frame j v. []" and nl = "[]", THEN conjunct2, THEN mp, OF number]
  have aborted: "convert_rows
       [[''Email'' \<mapsto> Str ''a@x.com'', ''Site Role'' \<mapsto> Str ''Viewer''],
        [''Email'' \<mapsto> Str ''c@x.com'', ''Site Role'' \<mapsto> Other 7]] []
     = (Inl TypeError :: py_error + int cell list list)"
    by (rule conjunct1)
  from counted aborted show ?thesis by (rule conjI)
qed

subsection \<open>C3: a site role that is not a string\<close>

text \<open>
  Claim C3 says that a missing or non-string site role is coerced to the empty string and
  never aborts the conversion. The code has no such coercion. The sheet below holds the
  number 5 in the \<open>Site Role\<close> cell of its second row: the substring test raises, the loop
  stops, and the conversion yields no record at all, not even for the well-formed first row.
\<close>

theorem numeric_site_role_counterexample:
  "convert_rows
     [[''Email'' \<mapsto> Str ''a@x.com'', ''Site Role'' \<mapsto> Str ''Viewer''],
      [''Email'' \<mapsto> Str ''b@x.com'', ''Site Role'' \<mapsto> Other 5]] []
     = (Inl TypeError :: py_error + int cell list list)
   \<and> convert_rows
     [[''Email'' \<mapsto> Str ''a@x.com'', ''Site Role'' \<mapsto> Str ''Viewer''],
      [''Email'' \<mapsto> Str ''b@x.com'', ''Site Role'' \<mapsto> Other 5]] []
     \<noteq> Inr [[Str ''a@x.com'', Str '''', Str '''', Str ''Viewer'', Str ''None'', Str ''False''],
             [Str ''b@x.com'', Str '''', Str '''', Str '''', Str ''None'', (Str ''False'' :: int cell)]]"
  by (simp add: convert_row_def series_get_def role_columns_Str role_columns_Other sublist_Cons_right)

text \<open>
  Claim C3, as amended. A row whose \<open>Site Role\<close> column is absent gets the empty string
  by default and takes the pass-through branch. A row whose \<open>Site Role\<close> cell holds a
  scalar that is not a string (a number, a boolean, a timestamp) is not coerced: the
  substring test raises \<open>TypeError\<close>, the exception handler reports the whole conversion
  as failed, and no record is produced for any row of the sheet.
\<close>

theorem non_string_site_role_aborts:
  "(row ''Site Role'' = None \<longrightarrow>
      convert_row row =
        Inr [series_get row ''Email'' (Str ''''), Str '''', Str '''', Str '''', Str ''None'', Str ''False''])
   \<and> (row \<in> set df \<and> row ''Site Role'' = Some (Other v) \<longrightarrow>
      convert_rows df [] = Inl TypeError
      \<and> convert_excel_to_csv fmt nl (Sheet df) = Conversion_failed TypeError)"
proof (intro conjI impI)
  assume "row ''Site Role'' = None"
  then have "series_get row ''Site Role'' (Str '''') = Str ''''"
    by (simp add: series_get_def)
  then show "convert_row row =
        Inr [series_get row ''Email'' (Str ''''), Str '''', Str '''', Str '''', Str ''None'', Str ''False'']"
    by (simp add: convert_row_Str)
next
  assume a: "row \<in> set df \<and> row ''Site Role'' = Some (Other v)"
  then have "\<forall>s. series_get row ''Site Role'' (Str '''') \<noteq> Str s"
    by (simp add: series_get_def)
  with a have run: "convert_rows df [] = Inl TypeError"
    using convert_rows_fails by blast
  then show "convert_rows df [] = Inl TypeError" .
  from run show "convert_excel_to_csv fmt nl (Sheet df) = Conversion_failed TypeError"
    by (simp add: convert_excel_to_csv_def)
qed

theorem non_string_site_role_aborts_witness:
  "convert_row [''Email'' \<mapsto> Str ''n@x.com'']
     = Inr [Str ''n@x.com'', Str '''', Str '''', Str '''', Str ''None'', (Str ''False'' :: int cell)]
   \<and> convert_excel_to_csv (\<lambda>frame j v. []) [CHR 0x0A]
       (Sheet [[''Email'' \<mapsto> Str ''a@x.com'', ''Site Role'' \<mapsto> Str ''Viewer''],
               [''Email'' \<mapsto> Str ''b@x.com'', ''Site Role'' \<mapsto> Other (5::int)]])
     = Conversion_failed TypeError"
  using non_string_site_role_aborts [of "[''Email'' \<mapsto> Str ''n@x.com'']"]
    non_string_site_role_aborts
      [of "[''Email'' \<mapsto> Str ''b@x.com'', ''Site Role'' \<mapsto> Other (5::int)]"
          "[[''Email'' \<mapsto> Str ''a@x.com'', ''Site Role'' \<mapsto> Str ''Viewer''],
            [''Email'' \<mapsto> Str ''b@x.com'', ''Site Role'' \<mapsto> Other 5]]"
          "5" "\<lambda>frame j v. []" "[CHR 0x0A]"]
  by (simp add: series_get_def)

subsection \<open>C4: the email and the two empty fields\<close>

text \<open>
  Claim C4. In every record of a finished conversion the first field (index 0) is the
  \<open>Email\<close> cell of the row at the same position, unchanged whatever it holds (the empty
  string when the column is absent), and the second and third fields are the empty string.
\<close>

theorem email_verbatim:
  assumes "convert_rows df [] = Inr transformed_data" and "i < length df"
  shows "transformed_data ! i ! 0 = series_get (df ! i) ''Email'' (Str '''')
       \<and> transformed_data ! i ! 1 = Str ''''
       \<and> transformed_data ! i ! 2 = Str ''''"
proof -
  from assms have "convert_row (df ! i) = Inr (transformed_data ! i)"
    by (rule convert_rows_nth)
  from convert_row_shape [OF this] show ?thesis by simp
qed

theorem email_verbatim_witness:
  "[[Str ''a@x.com'', Str '''', Str '''', Str ''Viewer'', Str ''None'', Str ''False''],
    [Str '''', Str '''', Str '''', Str ''Unlicensed'', Str ''None'', Str ''False'']] ! 1 ! 0
     = series_get ([[''Email'' \<mapsto> Str ''a@x.com'', ''Site Role'' \<mapsto> Str ''Viewer''],
                    [''Email'' \<mapsto> Str '''', ''Site Role'' \<mapsto> Str ''Unlicensed'']] ! 1)
         ''Email'' (Str '''' :: int cell)"
proof -
  have run: "convert_rows
      [[''Email'' \<mapsto> Str ''a@x.com'', ''Site Role'' \<mapsto> Str ''Viewer''],
       [''Email'' \<mapsto> Str '''', ''Site Role'' \<mapsto> Str ''Unlicensed'']] []
    = Inr [[Str ''a@x.com'', Str '''', Str '''', Str ''Viewer'', Str ''None'', Str ''False''],
           [Str '''', Str '''', Str '''', Str ''Unlicensed'', Str ''None'', (Str ''False'' :: int cell)]]"
    by (simp add: convert_row_def series_get_def role_columns_Str sublist_Cons_right)
  have "(1::nat) < length [[''Email'' \<mapsto> Str ''a@x.com'', ''Site Role'' \<mapsto> Str ''Viewer''],
       [''Email'' \<mapsto> Str '''', ''Site Role'' \<mapsto> (Str ''Unlicensed'' :: int cell)]]"
    by simp
  from email_verbatim [OF run this] show ?thesis by blast
qed

subsection \<open>C9: the two converters agree\<close>

text \<open>
  Claim C9. The converter of the first front-end and the one inlined in \<open>main\<close> of the
  second compute the same transformation: the same record (or the same exception) for every
  row, the same list of records for every sheet, and the same outcome, hence the same CSV
  text, for every sheet of rows.
\<close>

theorem converters_agree:
  "main_convert_row row = convert_row row
   \<and> main_convert_rows df [] = convert_rows df []
   \<and> main_convert_user_format fmt nl (Sheet df) = convert_excel_to_csv fmt nl (Sheet df)"
  by (simp add: main_convert_row_eq main_convert_rows_eq main_convert_user_format_def
      convert_excel_to_csv_def)

subsection \<open>C10: a site administrator can publish\<close>

text \<open>
  Claim C10. In every record that either converter produces, an admin scope (fifth field,
  index 4) equal to \<open>site\<close> comes with a publish flag (sixth field, index 5) equal to
  \<open>True\<close>; no record has scope \<open>site\<close> and flag \<open>False\<close>.
\<close>

theorem site_scope_implies_publish:
  assumes "convert_rows df [] = Inr transformed_data \<or> main_convert_rows df [] = Inr transformed_data"
    and "rcd \<in> set transformed_data"
    and "rcd ! 4 = Str ''site''"
  shows "rcd ! 5 = Str ''True'' \<and> rcd ! 5 \<noteq> Str ''False''"
proof -
  from assms(1) have run: "convert_rows df [] = Inr transformed_data"
    by (simp add: main_convert_rows_eq)
  then have len: "length transformed_data = length df" by (rule convert_rows_length)
  from assms(2) obtain i where i: "i < length transformed_data" "transformed_data ! i = rcd"
    by (auto simp: in_set_conv_nth)
  with run len have "convert_row (df ! i) = Inr rcd"
    using convert_rows_nth by fastforce
  from convert_row_shape [OF this] assms(3) show ?thesis by simp
qed

theorem site_scope_implies_publish_witness:
  "[Str ''d@x.com'', Str '''', Str '''', Str ''Explorer'', Str ''site'', Str ''True''] ! 5
     = (Str ''True'' :: int cell)"
proof -
  have run: "convert_rows [[''Email'' \<mapsto> Str ''d@x.com'', ''Site Role'' \<mapsto> Str ''SiteAdministratorExplorer'']] []
    = Inr [[Str ''d@x.com'', Str '''', Str '''', Str ''Explorer'', Str ''site'', (Str ''True'' :: int cell)]]"
    by (simp add: convert_row_def series_get_def role_columns_Str sublist_Cons_right)
  have mem: "[Str ''d@x.com'', Str '''', Str '''', Str ''Explorer'', Str ''site'', (Str ''True'' :: int cell)]
     \<in> set [[Str ''d@x.com'', Str '''', Str '''', Str ''Explorer'', Str ''site'', Str ''True'']]"
    by simp
  have scope: "[Str ''d@x.com'', Str '''', Str '''', Str ''Explorer'', Str ''site'', (Str ''True'' :: int cell)] ! 4
     = Str ''site''"
    by simp
  from site_scope_implies_publish [OF disjI1 [OF run] mem scope] show ?thesis by blast
qed

subsection \<open>C8: determinism\<close>

text \<open>
  Claim C8. For every site role string exactly one row of the mapping table applies, the
  first one whose keyword occurs in it (the last row when none does), and the chain returns
  the output of that row. The conversion is a function of the \<open>Email\<close> and
  \<open>Site Role\<close> cells alone: two sheets that agree on these two columns, in particular
  the same sheet converted twice, give the same records and the same outcome, so the same
  CSV text.
\<close>

theorem conversion_deterministic:
  "(let matches = [sublist ''SiteAdministratorCreator'' s, sublist ''ExplorerCanPublish'' s,
                   sublist ''Viewer'' s, sublist ''SiteAdministratorExplorer'' s, True];
        outputs = [(Str ''Creator'', Str ''site'', Str ''True''),
                   (Str ''Explorer'', Str ''None'', Str ''True''),
                   (Str ''Viewer'', Str ''None'', Str ''False''),
                   (Str ''Explorer'', Str ''site'', Str ''True''),
                   (Str s, Str ''None'', Str ''False'')]
    in (\<exists>!k. k < 5 \<and> matches ! k \<and> (\<forall>j<k. \<not> matches ! j))
     \<and> (\<forall>k<5. matches ! k \<and> (\<forall>j<k. \<not> matches ! j) \<longrightarrow> role_columns (Str s) = Inr (outputs ! k)))
   \<and> (map (\<lambda>row. (row ''Email'', row ''Site Role'')) df
        = map (\<lambda>row. (row ''Email'', row ''Site Role'')) df'
      \<longrightarrow> convert_rows df [] = convert_rows df' []
        \<and> convert_excel_to_csv fmt nl (Sheet df) = convert_excel_to_csv fmt nl (Sheet df'))"
  unfolding Let_def
proof (intro conjI)
  let ?cs = "[sublist ''SiteAdministratorCreator'' s, sublist ''ExplorerCanPublish'' s,
            sublist ''Viewer'' s, sublist ''SiteAdministratorExplorer'' s, True]"
  have len: "length ?cs = 5" by simp
  have "\<exists>k<length ?cs. ?cs ! k"
    by (rule exI [of _ 4]) simp
  from first_match_unique [OF this, unfolded len]
  show "\<exists>!k. k < 5 \<and> ?cs ! k \<and> (\<forall>j<k. \<not> ?cs ! j)" .
next
  let ?cs = "[sublist ''SiteAdministratorCreator'' s, sublist ''ExplorerCanPublish'' s,
            sublist ''Viewer'' s, sublist ''SiteAdministratorExplorer'' s, True]"
  let ?rs = "[(Str ''Creator'', Str ''site'', Str ''True''),
                   (Str ''Explorer'', Str ''None'', Str ''True''),
                   (Str ''Viewer'', Str ''None'', Str ''False''),
                   (Str ''Explorer'', Str ''site'', Str ''True''),
                   (Str s, Str ''None'', Str ''False'')]"
  show "\<forall>k<5. ?cs ! k \<and> (\<forall>j<k. \<not> ?cs ! j) \<longrightarrow> role_columns (Str s) = Inr (?rs ! k)"
  proof (intro allI impI)
    fix k :: nat
    assume "k < 5" and fm: "?cs ! k \<and> (\<forall>j<k. \<not> ?cs ! j)"
    then consider "k = 0" | "k = 1" | "k = 2" | "k = 3" | "k = 4" by linarith
    then show "role_columns (Str s) = Inr (?rs ! k)"
    proof cases
      case 1
      with fm show ?thesis by (simp add: role_columns_Str)
    next
      case 2
      with fm show ?thesis by (simp add: role_columns_Str)
    next
      case 3
      with fm show ?thesis by (simp add: role_columns_Str All_less_Suc eval_nat_numeral)
    next
      case 4
      with fm show ?thesis by (simp add: role_columns_Str All_less_Suc eval_nat_numeral)
    next
      case 5
      with fm show ?thesis by (simp add: role_columns_Str All_less_Suc eval_nat_numeral)
    qed
  qed
next
  show "map (\<lambda>row. (row ''Email'', row ''Site Role'')) df
        = map (\<lambda>row. (row ''Email'', row ''Site Role'')) df'
      \<longrightarrow> convert_rows df [] = convert_rows df' []
        \<and> convert_excel_to_csv fmt nl (Sheet df) = convert_excel_to_csv fmt nl (Sheet df')"
  proof
    assume "map (\<lambda>row. (row ''Email'', row ''Site Role'')) df
        = map (\<lambda>row. (row ''Email'', row ''Site Role'')) df'"
    then have "convert_rows df [] = convert_rows df' []" by (rule convert_rows_columns)
    then show "convert_rows df [] = convert_rows df' []
        \<and> convert_excel_to_csv fmt nl (Sheet df) = convert_excel_to_csv fmt nl (Sheet df')"
      by (simp add: convert_excel_to_csv_def)
  qed
qed

theorem conversion_deterministic_witness:
  "role_columns (Str ''Viewer'') = Inr (Str ''Viewer'', Str ''None'', (Str ''False'' :: int cell))
   \<and> convert_rows [[''Name'' \<mapsto> Str ''Ann'', ''Email'' \<mapsto> Str ''a@x.com'', ''Site Role'' \<mapsto> Str ''Viewer'']] []
     = convert_rows [[''Email'' \<mapsto> Str ''a@x.com'', ''Site Role'' \<mapsto> (Str ''Viewer'' :: int cell)]] []"
proof -
  note inst = conversion_deterministic
    [where s = "''Viewer''"
       and df = "[[''Name'' \<mapsto> Str ''Ann'', ''Email'' \<mapsto> Str ''a@x.com'', ''Site Role'' \<mapsto> Str ''Viewer'']]"
       and df' = "[[''Email'' \<mapsto> Str ''a@x.com'', ''Site Role'' \<mapsto> (Str ''Viewer'' :: int cell)]]"
       and fmt = "\<lambda>frame j v. []" and nl = "[]", unfolded Let_def]
  from inst [THEN conjunct1, THEN conjunct2, rule_format, of 2]
  have a: "role_columns (Str ''Viewer'') = Inr (Str ''Viewer'', Str ''None'', (Str ''False'' :: int cell))"
    by (simp add: sublist_Cons_right All_less_Suc eval_nat_numeral)
  have cols: "map (\<lambda>row. (row ''Email'', row ''Site Role''))
        [[''Name'' \<mapsto> Str ''Ann'', ''Email'' \<mapsto> Str ''a@x.com'', ''Site Role'' \<mapsto> Str ''Viewer'']]
      = map (\<lambda>row. (row ''Email'', row ''Site Role''))
        [[''Email'' \<mapsto> Str ''a@x.com'', ''Site Role'' \<mapsto> (Str ''Viewer'' :: int cell)]]"
    by simp
  from inst [THEN conjunct2, THEN mp, OF cols]
  have b: "convert_rows [[''Name'' \<mapsto> Str ''Ann'', ''Email'' \<mapsto> Str ''a@x.com'', ''Site Role'' \<mapsto> Str ''Viewer'']] []
     = convert_rows [[''Email'' \<mapsto> Str ''a@x.com'', ''Site Role'' \<mapsto> (Str ''Viewer'' :: int cell)]] []"
    by (rule conjunct1)
  from a b show ?thesis by (rule conjI)
qed

subsection \<open>C7: the serialised text\<close>

text \<open>
  Claim C7. The download of a finished conversion is comma-delimited text with one
  terminated line per record and nothing else: no header line and no index field. Each line
  holds the six fields in the order email, empty, empty, simplified role, admin scope,
  publish flag; the two empty fields contribute nothing between their commas, and the scope
  and the flag are never quoted. An email or a simplified role is written as it is when it
  has no comma, double quote, carriage return or line feed, and is enclosed in double quotes,
  with inner double quotes doubled, when it contains the delimiter. A sheet without rows
  gives the empty text. The serialisation is the model of \<open>to_csv\<close> given above.
\<close>

theorem csv_layout:
  assumes "convert_rows df [] = Inr transformed_data"
  shows "to_csv fmt nl transformed_data =
           concat (map (\<lambda>rcd. quote_field (cell_text (fmt transformed_data 0) (rcd ! 0)) @ '','' @ '',''
                             @ '','' @ quote_field (cell_text (fmt transformed_data 3) (rcd ! 3))
                             @ '','' @ cell_text (fmt transformed_data 4) (rcd ! 4)
                             @ '','' @ cell_text (fmt transformed_data 5) (rcd ! 5) @ nl)
                   transformed_data)
       \<and> length transformed_data = length df
       \<and> convert_excel_to_csv fmt nl (Sheet df) = Download (to_csv fmt nl transformed_data)
       \<and> convert_excel_to_csv fmt nl (Sheet []) = Download []
       \<and> (\<not> needs_quoting f \<longrightarrow> quote_field f = f)
       \<and> (CHR '','' \<in> set g \<longrightarrow>
            quote_field g =
              [CHR 0x22] @ concat (map (\<lambda>c. if c = CHR 0x22 then [c, c] else [c]) g) @ [CHR 0x22])"
proof (intro conjI)
  have "csv_line fmt transformed_data rcd =
      quote_field (cell_text (fmt transformed_data 0) (rcd ! 0)) @ '','' @ '',''
        @ '','' @ quote_field (cell_text (fmt transformed_data 3) (rcd ! 3))
        @ '','' @ cell_text (fmt transformed_data 4) (rcd ! 4)
        @ '','' @ cell_text (fmt transformed_data 5) (rcd ! 5)"
    if "rcd \<in> set transformed_data" for rcd
  proof -
    from assms that obtain row where "convert_row row = Inr rcd"
      using convert_rows_member by blast
    then obtain email r a p where
      "rcd = [email, Str '''', Str '''', Str r, Str a, Str p]"
      "a = ''site'' \<or> a = ''None''" "p = ''True'' \<or> p = ''False''"
      using convert_row_fields by blast
    then show ?thesis by (simp add: csv_line_fields cell_text_def)
  qed
  then show "to_csv fmt nl transformed_data =
           concat (map (\<lambda>rcd. quote_field (cell_text (fmt transformed_data 0) (rcd ! 0)) @ '','' @ '',''
                             @ '','' @ quote_field (cell_text (fmt transformed_data 3) (rcd ! 3))
                             @ '','' @ cell_text (fmt transformed_data 4) (rcd ! 4)
                             @ '','' @ cell_text (fmt transformed_data 5) (rcd ! 5) @ nl)
                   transformed_data)"
    unfolding to_csv_def by (intro arg_cong [where f = concat] map_cong) simp_all
next
  from assms show "length transformed_data = length df" by (rule convert_rows_length)
next
  from assms show "convert_excel_to_csv fmt nl (Sheet df) = Download (to_csv fmt nl transformed_data)"
    by (simp add: convert_excel_to_csv_def)
next
  show "convert_excel_to_csv fmt nl (Sheet []) = Download []"
    by (simp add: convert_excel_to_csv_def to_csv_def)
next
  show "\<not> needs_quoting f \<longrightarrow> quote_field f = f"
    by (simp add: quote_field_def)
next
  show "CHR '','' \<in> set g \<longrightarrow>
            quote_field g =
              [CHR 0x22] @ concat (map (\<lambda>c. if c = CHR 0x22 then [c, c] else [c]) g) @ [CHR 0x22]"
    by (auto simp: quote_field_def needs_quoting_def list_ex_iff)
qed

theorem csv_layout_witness:
  "to_csv (\<lambda>frame j v. []) [CHR 0x0A]
     [[Str ''g@x.com'', Str '''', Str '''', Str ''Guest, external'', Str ''None'', (Str ''False'' :: int cell)]]
   = [CHR ''g'', CHR ''@'', CHR ''x'', CHR ''.'', CHR ''c'', CHR ''o'', CHR ''m'', CHR '','', CHR '','', CHR '','',
      CHR 0x22, CHR ''G'', CHR ''u'', CHR ''e'', CHR ''s'', CHR ''t'', CHR '','', CHR '' '',
      CHR ''e'', CHR ''x'', CHR ''t'', CHR ''e'', CHR ''r'', CHR ''n'', CHR ''a'', CHR ''l'', CHR 0x22,
      CHR '','', CHR ''N'', CHR ''o'', CHR ''n'', CHR ''e'', CHR '','',
      CHR ''F'', CHR ''a'', CHR ''l'', CHR ''s'', CHR ''e'', CHR 0x0A]
   \<and> quote_field ''Viewer'' = ''Viewer''
   \<and> quote_field ''a,b'' = [CHR 0x22, CHR ''a'', CHR '','', CHR ''b'', CHR 0x22]"
proof -
  have run: "convert_rows [[''Email'' \<mapsto> Str ''g@x.com'', ''Site Role'' \<mapsto> Str ''Guest, external'']] []
    = Inr [[Str ''g@x.com'', Str '''', Str '''', Str ''Guest, external'', Str ''None'', (Str ''False'' :: int cell)]]"
    by (simp add: convert_row_def series_get_def role_columns_Str sublist_Cons_right)
  have plain: "\<not> needs_quoting ''Viewer''"
    by (simp add: needs_quoting_def)
  have comma: "CHR '','' \<in> set ''a,b''"
    by simp
  note inst = csv_layout [OF run, where fmt = "\<lambda>frame j v. []" and nl = "[CHR 0x0A]"
      and f = "''Viewer''" and g = "''a,b''"]
  from inst have line: "to_csv (\<lambda>frame j v. []) [CHR 0x0A]
     [[Str ''g@x.com'', Str '''', Str '''', Str ''Guest, external'', Str ''None'', (Str ''False'' :: int cell)]]
   = [CHR ''g'', CHR ''@'', CHR ''x'', CHR ''.'', CHR ''c'', CHR ''o'', CHR ''m'', CHR '','', CHR '','', CHR '','',
      CHR 0x22, CHR ''G'', CHR ''u'', CHR ''e'', CHR ''s'', CHR ''t'', CHR '','', CHR '' '',
      CHR ''e'', CHR ''x'', CHR ''t'', CHR ''e'', CHR ''r'', CHR ''n'', CHR ''a'', CHR ''l'', CHR 0x22,
      CHR '','', CHR ''N'', CHR ''o'', CHR ''n'', CHR ''e'', CHR '','',
      CHR ''F'', CHR ''a'', CHR ''l'', CHR ''s'', CHR ''e'', CHR 0x0A]"
    by (simp add: cell_text_def quote_field_def needs_quoting_def)
  from inst plain have unquoted: "quote_field ''Viewer'' = ''Viewer''"
    by blast
  from inst comma have quoted: "quote_field ''a,b'' = [CHR 0x22, CHR ''a'', CHR '','', CHR ''b'', CHR 0x22]"
    by simp
  from line unquoted quoted show ?thesis by blast
qed

end
